theory Spec2Isabelle
  imports Main
begin

section \<open>Form values and parsed bookings\<close>

text \<open>
  The booking form of \<^verbatim>\<open>src/pages/BookingForm.tsx\<close> has seven fields. The same
  field names occur twice: in the object of raw values that the form library hands to the
  schema (every value a string, or \<^verbatim>\<open>undefined\<close> when the field never
  received a value, which is what happens to \<^verbatim>\<open>roomType\<close> until an item of the
  dropdown is chosen), and in \<^verbatim>\<open>BookingFormData\<close>, the type inferred from the
  schema. One record with two type parameters serves both: \<open>'s\<close> is the type of the
  five required string fields, \<open>'r\<close> the type of \<^verbatim>\<open>roomType\<close>.
  A JavaScript string is modelled as a \<^typ>\<open>string\<close>, and \<^verbatim>\<open>.length\<close> as
  \<^const>\<open>length\<close>.
\<close>

datatype RoomType = Single | Double | Deluxe | Suite

record ('s, 'r) booking_fields =
  guestName :: 's
  roomType :: 'r
  checkInDate :: 's
  checkOutDate :: 's
  contactNumber :: 's
  email :: 's
  idProof :: "string option"

text \<open>A candidate: \<open>None\<close> is \<^verbatim>\<open>undefined\<close>.\<close>

type_synonym candidate = "(string option, string option) booking_fields"

type_synonym BookingFormData = "(string, RoomType) booking_fields"

section \<open>The platform the schema runs on\<close>

text \<open>
  Two things the schema uses are decided outside the repository: what
  \<^verbatim>\<open>new Date(string)\<close> makes of a string (the time value in milliseconds, or
  \<open>None\<close> for the invalid date whose time value is NaN), and the grammar behind
  \<^verbatim>\<open>z.string().email()\<close>. Both are parameters of the model, so every general
  theorem below holds for any JavaScript engine and any version of the schema library.
\<close>

record engine =
  Date_parse :: "string \<Rightarrow> int option"
  email_regex :: "string \<Rightarrow> bool"

subsection \<open>A reference engine\<close>

text \<open>
  For concrete evaluations only. Its \<open>Date_parse\<close> reads the date-only forms
  \<^verbatim>\<open>YYYY\<close>, \<^verbatim>\<open>YYYY-MM\<close> and \<^verbatim>\<open>YYYY-MM-DD\<close> of the ECMAScript date-time
  string format as UTC midnight (the last is what an \<^verbatim>\<open>input type="date"\<close>
  produces) and nothing else. A browser's engine reads more: the forms with a time part,
  and formats of its own such as \<^verbatim>\<open>01.06.2025\<close>, \<^verbatim>\<open>12/31/2025\<close> or
  \<^verbatim>\<open>2025/06/01\<close>, and some engines roll \<^verbatim>\<open>2025-02-30\<close> over into March. The
  reference engine is therefore a stand-in for \<^verbatim>\<open>new Date\<close> only on strings that
  every engine treats alike, and the concrete instances below use no other strings: valid
  date-only forms, \<^verbatim>\<open>not-a-date\<close>, and \<^verbatim>\<open>31/12/2025\<close>, whose month 31 no engine
  accepts. Its \<open>email_regex\<close> is the address pattern of the schema library,
  \<^verbatim>\<open>/^(?!\.)(?!.*\.\.)([A-Z0-9_'+\-\.]*)[A-Z0-9_+-]@([A-Z0-9][A-Z0-9\-]*\.)+[A-Z]{2,}$/i\<close>.
\<close>

definition is_digit :: "char \<Rightarrow> bool" where
  "is_digit c = (c \<in> set ''0123456789'')"

definition is_letter :: "char \<Rightarrow> bool" where
  "is_letter c =
     (c \<in> set ''abcdefghijklmnopqrstuvwxyzABCDEFGHIJKLMNOPQRSTUVWXYZ'')"

definition digits_value :: "string \<Rightarrow> nat" where
  "digits_value s = foldl (\<lambda>n c. 10 * n + (of_char c - 48)) 0 s"

definition number_of :: "nat \<Rightarrow> string \<Rightarrow> nat option" where
  "number_of w s =
     (if length s = w \<and> list_all is_digit s then Some (digits_value s) else None)"

definition is_leap :: "nat \<Rightarrow> bool" where
  "is_leap y = (y mod 4 = 0 \<and> (y mod 100 \<noteq> 0 \<or> y mod 400 = 0))"

definition days_in_month :: "nat \<Rightarrow> nat \<Rightarrow> nat" where
  "days_in_month y m =
     (if m = 2 then (if is_leap y then 29 else 28)
      else if m \<in> set [4, 6, 9, 11] then 30 else 31)"

text \<open>Days between 1970-01-01 and the given civil date (proleptic Gregorian).\<close>

definition days_from_civil :: "nat \<Rightarrow> nat \<Rightarrow> nat \<Rightarrow> int" where
  "days_from_civil y m d =
     (let y' = (if m \<le> 2 then int y - 1 else int y);
          era = y' div 400;
          yoe = y' - era * 400;
          mp = (int m + 9) mod 12;
          doy = (153 * mp + 2) div 5 + int d - 1;
          doe = yoe * 365 + yoe div 4 - yoe div 100 + doy
      in era * 146097 + doe - 719468)"

definition make_date :: "nat \<Rightarrow> nat \<Rightarrow> nat \<Rightarrow> int option" where
  "make_date y m d =
     (if 1 \<le> m \<and> m \<le> 12 \<and> 1 \<le> d \<and> d \<le> days_in_month y m
      then Some (days_from_civil y m d * 86400000) else None)"

definition iso_date_only :: "string \<Rightarrow> int option" where
  "iso_date_only s =
     (case number_of 4 (take 4 s) of
        None \<Rightarrow> None
      | Some y \<Rightarrow>
          (if length s = 4 then make_date y 1 1
           else if length s = 7 \<and> s ! 4 = CHR ''-'' then
             (case number_of 2 (drop 5 s) of
                None \<Rightarrow> None
              | Some m \<Rightarrow> make_date y m 1)
           else if length s = 10 \<and> s ! 4 = CHR ''-'' \<and> s ! 7 = CHR ''-'' then
             (case (number_of 2 (take 2 (drop 5 s)), number_of 2 (drop 8 s)) of
                (Some m, Some d) \<Rightarrow> make_date y m d
              | _ \<Rightarrow> None)
           else None))"

fun split_on :: "char \<Rightarrow> string \<Rightarrow> string list" where
  "split_on c [] = [[]]"
| "split_on c (x # xs) =
     (case split_on c xs of
        [] \<Rightarrow> [[]]
      | p # ps \<Rightarrow> if x = c then [] # p # ps else (x # p) # ps)"

fun no_double_dot :: "string \<Rightarrow> bool" where
  "no_double_dot (a # b # xs) =
     (\<not> (a = CHR ''.'' \<and> b = CHR ''.'') \<and> no_double_dot (b # xs))"
| "no_double_dot _ = True"

definition local_part_ok :: "string \<Rightarrow> bool" where
  "local_part_ok l =
     (l \<noteq> [] \<and> hd l \<noteq> CHR ''.''
      \<and> list_all (\<lambda>c. is_letter c \<or> is_digit c \<or> c \<in> set [CHR ''_'', CHR 0x27, CHR ''+'', CHR ''-'', CHR ''.'']) l
      \<and> (let e = last l in is_letter e \<or> is_digit e \<or> e \<in> set ''_+-''))"

definition domain_label_ok :: "string \<Rightarrow> bool" where
  "domain_label_ok d =
     (d \<noteq> [] \<and> (is_letter (hd d) \<or> is_digit (hd d))
      \<and> list_all (\<lambda>c. is_letter c \<or> is_digit c \<or> c = CHR ''-'') d)"

definition domain_ok :: "string \<Rightarrow> bool" where
  "domain_ok d =
     (let labels = split_on (CHR ''.'') d in
        2 \<le> length labels
        \<and> list_all domain_label_ok (butlast labels)
        \<and> 2 \<le> length (last labels) \<and> list_all is_letter (last labels))"

definition zod_email :: "string \<Rightarrow> bool" where
  "zod_email s =
     (case split_on (CHR ''@'') s of
        [l, d] \<Rightarrow> no_double_dot s \<and> local_part_ok l \<and> domain_ok d
      | _ \<Rightarrow> False)"

definition reference_engine :: engine where
  "reference_engine = \<lparr>Date_parse = iso_date_only, email_regex = zod_email\<rparr>"

section \<open>The schema library\<close>

text \<open>
  A schema's parse returns a status with the parsed value and reports issues on the side.
  \<open>INVALID\<close> is the library's status \<^verbatim>\<open>aborted\<close> (there is no value), \<open>DIRTY\<close>
  is a value that failed a check, \<open>OK\<close> a value that passed. An issue carries the path of
  the field it is about and a message.
\<close>

datatype 'a ParseReturn = INVALID | DIRTY 'a | OK 'a

record issue =
  path :: string
  message :: string

fun value_of :: "'a ParseReturn \<Rightarrow> 'a option" where
  "value_of INVALID = None"
| "value_of (DIRTY v) = Some v"
| "value_of (OK v) = Some v"

fun is_dirty :: "'a ParseReturn \<Rightarrow> bool" where
  "is_dirty (DIRTY v) = True"
| "is_dirty _ = False"

text \<open>
  \<^verbatim>\<open>z.string()\<close> with its checks: a value that is not a string is an issue of its own
  and aborts; on a string every check runs, each failing one reports its message and
  makes the result dirty.
\<close>

definition z_string ::
  "string \<Rightarrow> ((string \<Rightarrow> bool) \<times> string) list \<Rightarrow> string option
     \<Rightarrow> string ParseReturn \<times> issue list" where
  "z_string p checks v =
     (case v of
        None \<Rightarrow> (INVALID, [\<lparr>path = p, message = ''Required''\<rparr>])
      | Some s \<Rightarrow>
          (let failed = filter (\<lambda>(ok, m). \<not> ok s) checks in
             (if failed = [] then OK s else DIRTY s,
              map (\<lambda>(ok, m). \<lparr>path = p, message = m\<rparr>) failed)))"

text \<open>
  \<^verbatim>\<open>z.enum(['Single', 'Double', 'Deluxe', 'Suite'], {required_error})\<close>: a missing
  value reports \<^verbatim>\<open>required_error\<close>, a string outside the list reports the library's
  message; both abort.
\<close>

definition RoomType_of :: "string \<Rightarrow> RoomType option" where
  "RoomType_of s =
     (if s = ''Single'' then Some Single
      else if s = ''Double'' then Some Double
      else if s = ''Deluxe'' then Some Deluxe
      else if s = ''Suite'' then Some Suite
      else None)"

definition z_enum_RoomType ::
  "string \<Rightarrow> string \<Rightarrow> string option \<Rightarrow> RoomType ParseReturn \<times> issue list" where
  "z_enum_RoomType p required_error v =
     (case v of
        None \<Rightarrow> (INVALID, [\<lparr>path = p, message = required_error\<rparr>])
      | Some s \<Rightarrow>
          (case RoomType_of s of
             None \<Rightarrow>
               (INVALID,
                [\<lparr>path = p,
                  message =
                    ''Invalid enum value. Expected 'Single' | 'Double' | 'Deluxe' | 'Suite', received ''
                    @ [CHR 0x27] @ s @ [CHR 0x27]\<rparr>])
           | Some r \<Rightarrow> (OK r, [])))"

text \<open>
  The object schema merges the results of its fields, in the order of the shape: one
  aborted field aborts the object, otherwise one dirty field makes it dirty.
  \<^verbatim>\<open>idProof\<close> is \<^verbatim>\<open>z.string().optional()\<close>: whatever the form holds is accepted.
\<close>

definition mergeObjectSync ::
  "string ParseReturn \<Rightarrow> RoomType ParseReturn \<Rightarrow> string ParseReturn \<Rightarrow> string ParseReturn
     \<Rightarrow> string ParseReturn \<Rightarrow> string ParseReturn \<Rightarrow> string option
     \<Rightarrow> BookingFormData ParseReturn" where
  "mergeObjectSync g r ci co cn e ip =
     (case value_of g of None \<Rightarrow> INVALID | Some g' \<Rightarrow>
      case value_of r of None \<Rightarrow> INVALID | Some r' \<Rightarrow>
      case value_of ci of None \<Rightarrow> INVALID | Some ci' \<Rightarrow>
      case value_of co of None \<Rightarrow> INVALID | Some co' \<Rightarrow>
      case value_of cn of None \<Rightarrow> INVALID | Some cn' \<Rightarrow>
      case value_of e of None \<Rightarrow> INVALID | Some e' \<Rightarrow>
        (let d = \<lparr>guestName = g', roomType = r', checkInDate = ci', checkOutDate = co',
                   contactNumber = cn', email = e', idProof = ip\<rparr>
         in if is_dirty g \<or> is_dirty r \<or> is_dirty ci \<or> is_dirty co \<or> is_dirty cn \<or> is_dirty e
            then DIRTY d else OK d))"

text \<open>
  \<^verbatim>\<open>schema.refine(check, {message, path})\<close>: the inner schema is parsed first; when
  it aborted, the check is not run; otherwise the check runs on the inner value, also on
  a dirty one, and a failing check reports its issue and makes the result dirty.
\<close>

definition refine ::
  "('a \<Rightarrow> bool) \<Rightarrow> issue \<Rightarrow> 'a ParseReturn \<times> issue list \<Rightarrow> 'a ParseReturn \<times> issue list" where
  "refine check i inner =
     (case inner of
        (INVALID, is) \<Rightarrow> (INVALID, is)
      | (DIRTY v, is) \<Rightarrow> (DIRTY v, if check v then is else is @ [i])
      | (OK v, is) \<Rightarrow> (if check v then (OK v, is) else (DIRTY v, is @ [i])))"

text \<open>\<^verbatim>\<open>safeParse\<close>: the data when the status is valid, the issues otherwise.\<close>

definition safeParse :: "'a ParseReturn \<times> issue list \<Rightarrow> issue list + 'a" where
  "safeParse r = (case r of (OK v, is) \<Rightarrow> Inr v | (_, is) \<Rightarrow> Inl is)"

text \<open>
  The form's resolver turns the issues into the form's error object: one message per
  field, the first issue reported for it.
\<close>

definition toFieldErrors :: "issue list \<Rightarrow> (string \<rightharpoonup> string)" where
  "toFieldErrors is = map_of (map (\<lambda>i. (path i, message i)) is)"

section \<open>bookingSchema\<close>

definition contact_regex :: "string \<Rightarrow> bool" where
  \<comment> \<open>\<^verbatim>\<open>/^[0-9]{10}$/\<close>\<close>
  "contact_regex s = (length s = 10 \<and> list_all is_digit s)"

text \<open>
  Comparing two \<^verbatim>\<open>Date\<close> objects with \<^verbatim>\<open>>\<close> compares their time values; a
  comparison with NaN is false.
\<close>

definition date_gt :: "int option \<Rightarrow> int option \<Rightarrow> bool" where
  "date_gt a b = (case (a, b) of (Some x, Some y) \<Rightarrow> x > y | _ \<Rightarrow> False)"

definition checkOut_after_checkIn :: "engine \<Rightarrow> BookingFormData \<Rightarrow> bool" where
  "checkOut_after_checkIn E data =
     (let checkIn = Date_parse E (checkInDate data);
          checkOut = Date_parse E (checkOutDate data)
      in date_gt checkOut checkIn)"

definition date_order_issue :: issue where
  "date_order_issue =
     \<lparr>path = ''checkOutDate'', message = ''Check-out date must be after check-in date''\<rparr>"

text \<open>The shape of the object schema, one schema per field.\<close>

definition guestName_schema :: "string option \<Rightarrow> string ParseReturn \<times> issue list" where
  "guestName_schema =
     z_string ''guestName''
       [(\<lambda>s. 2 \<le> length s, ''Name must be at least 2 characters''),
        (\<lambda>s. length s \<le> 50, ''Name too long'')]"

definition roomType_schema :: "string option \<Rightarrow> RoomType ParseReturn \<times> issue list" where
  "roomType_schema = z_enum_RoomType ''roomType'' ''Please select a room type''"

definition checkInDate_schema :: "string option \<Rightarrow> string ParseReturn \<times> issue list" where
  "checkInDate_schema =
     z_string ''checkInDate'' [(\<lambda>s. 1 \<le> length s, ''Check-in date is required'')]"

definition checkOutDate_schema :: "string option \<Rightarrow> string ParseReturn \<times> issue list" where
  "checkOutDate_schema =
     z_string ''checkOutDate'' [(\<lambda>s. 1 \<le> length s, ''Check-out date is required'')]"

definition contactNumber_schema :: "string option \<Rightarrow> string ParseReturn \<times> issue list" where
  "contactNumber_schema =
     z_string ''contactNumber'' [(contact_regex, ''Contact number must be 10 digits'')]"

definition email_schema :: "engine \<Rightarrow> string option \<Rightarrow> string ParseReturn \<times> issue list" where
  "email_schema E = z_string ''email'' [(email_regex E, ''Invalid email address'')]"

definition bookingObject :: "engine \<Rightarrow> candidate \<Rightarrow> BookingFormData ParseReturn \<times> issue list" where
  "bookingObject E c =
     (let (g, ig) = guestName_schema (guestName c);
          (r, ir) = roomType_schema (roomType c);
          (ci, ici) = checkInDate_schema (checkInDate c);
          (co, ico) = checkOutDate_schema (checkOutDate c);
          (cn, icn) = contactNumber_schema (contactNumber c);
          (e, ie) = email_schema E (email c)
      in (mergeObjectSync g r ci co cn e (idProof c), ig @ ir @ ici @ ico @ icn @ ie))"

definition bookingSchema_parse :: "engine \<Rightarrow> candidate \<Rightarrow> BookingFormData ParseReturn \<times> issue list" where
  "bookingSchema_parse E c =
     refine (checkOut_after_checkIn E) date_order_issue (bookingObject E c)"

definition bookingSchema :: "engine \<Rightarrow> candidate \<Rightarrow> issue list + BookingFormData" where
  "bookingSchema E c = safeParse (bookingSchema_parse E c)"

text \<open>The issues of a candidate, empty when it is accepted, and the form's error object.\<close>

definition issues_of :: "engine \<Rightarrow> candidate \<Rightarrow> issue list" where
  "issues_of E c = (case bookingSchema E c of Inl is \<Rightarrow> is | Inr d \<Rightarrow> [])"

definition errors :: "engine \<Rightarrow> candidate \<Rightarrow> (string \<rightharpoonup> string)" where
  "errors E c = toFieldErrors (issues_of E c)"

text \<open>
  What the schema's checks say about a candidate, field by field, and the two conditions
  that govern the cross-field rule: whether the object schema delivers a value at all
  (every required field is a string and the room type is one of the four), and whether
  the check-out date is later than the check-in date as \<^verbatim>\<open>Date\<close> objects.
\<close>

definition object_parses :: "candidate \<Rightarrow> bool" where
  "object_parses c =
     (guestName c \<noteq> None
      \<and> (case roomType c of None \<Rightarrow> False | Some s \<Rightarrow> RoomType_of s \<noteq> None)
      \<and> checkInDate c \<noteq> None \<and> checkOutDate c \<noteq> None
      \<and> contactNumber c \<noteq> None \<and> email c \<noteq> None)"

definition checkOut_later :: "engine \<Rightarrow> candidate \<Rightarrow> bool" where
  "checkOut_later E c =
     (case (checkOutDate c, checkInDate c) of
        (Some co, Some ci) \<Rightarrow> date_gt (Date_parse E co) (Date_parse E ci)
      | _ \<Rightarrow> False)"

definition field_check_fails :: "engine \<Rightarrow> candidate \<Rightarrow> string \<Rightarrow> bool" where
  "field_check_fails E c f =
     (if f = ''guestName'' then
        (case guestName c of None \<Rightarrow> True | Some s \<Rightarrow> length s < 2 \<or> 50 < length s)
      else if f = ''roomType'' then
        (case roomType c of None \<Rightarrow> True | Some s \<Rightarrow> RoomType_of s = None)
      else if f = ''checkInDate'' then
        (case checkInDate c of None \<Rightarrow> True | Some s \<Rightarrow> s = [])
      else if f = ''checkOutDate'' then
        (case checkOutDate c of None \<Rightarrow> True | Some s \<Rightarrow> s = [])
      else if f = ''contactNumber'' then
        (case contactNumber c of None \<Rightarrow> True | Some s \<Rightarrow> \<not> contact_regex s)
      else if f = ''email'' then
        (case email c of None \<Rightarrow> True | Some s \<Rightarrow> \<not> email_regex E s)
      else False)"

section \<open>The submit handler\<close>

text \<open>
  \<^verbatim>\<open>onSubmit\<close> calls \<^verbatim>\<open>addBooking\<close> of the booking context inside a
  \<^verbatim>\<open>try\<close> block. The context is not part of the form, so \<^verbatim>\<open>addBooking\<close> is a
  parameter: on a store of any type \<open>'s\<close> it either returns or throws, leaving a store
  behind in both cases. What the handler does to its other collaborators (the toast, the
  form's \<^verbatim>\<open>reset\<close>, the dropdown's state setter, the timer that navigates) is
  recorded as the list of calls it makes, in order; these collaborators do not throw.
\<close>

datatype 's outcome = Returns 's | Throws 's

datatype ui_call =
    toast_success string string
  | toast_error string string
  | reset
  | setRoomType string
  | setTimeout_navigate string nat

definition addBooking_argument :: "BookingFormData \<Rightarrow> BookingFormData" where
  "addBooking_argument data =
     \<lparr>guestName = guestName data,
      roomType = roomType data,
      checkInDate = checkInDate data,
      checkOutDate = checkOutDate data,
      contactNumber = contactNumber data,
      email = email data,
      idProof = idProof data\<rparr>"

definition onSubmit ::
  "(BookingFormData \<Rightarrow> 's \<Rightarrow> 's outcome) \<Rightarrow> BookingFormData \<Rightarrow> 's \<Rightarrow> ui_call list \<times> 's" where
  "onSubmit addBooking data s =
     (case addBooking (addBooking_argument data) s of
        Returns s' \<Rightarrow>
          ([toast_success ''Booking created successfully!''
              (''Booking confirmed for '' @ guestName data),
            reset,
            setRoomType [],
            setTimeout_navigate ''/guests'' 1500], s')
      | Throws s' \<Rightarrow>
          ([toast_error ''Failed to create booking'' ''Please try again''], s'))"

text \<open>
  \<^verbatim>\<open>handleSubmit(onSubmit)\<close> of the form library: the resolver runs the schema on
  the form's values; with errors the handler is not called and the errors are shown,
  without errors the handler receives the parsed data.
\<close>

definition handleSubmit ::
  "engine \<Rightarrow> (BookingFormData \<Rightarrow> 's \<Rightarrow> 's outcome) \<Rightarrow> candidate \<Rightarrow> 's
     \<Rightarrow> (string \<rightharpoonup> string) \<times> ui_call list \<times> 's" where
  "handleSubmit E addBooking c s =
     (case bookingSchema E c of
        Inl is \<Rightarrow> (toFieldErrors is, [], s)
      | Inr data \<Rightarrow> (Map.empty, onSubmit addBooking data s))"

text \<open>
  The records a submission hands to the store: \<^verbatim>\<open>addBooking\<close> is replaced by a
  recorder that appends its argument to a list.
\<close>

definition handed_to_store :: "engine \<Rightarrow> candidate \<Rightarrow> BookingFormData list" where
  "handed_to_store E c =
     snd (snd (handleSubmit E (\<lambda>b bs. Returns (bs @ [b])) c []))"

section \<open>The booking store\<close>

text \<open>
  The booking store (the module \<^verbatim>\<open>contexts/BookingContext\<close> that the form imports
  \<^verbatim>\<open>useBookings\<close> from) is not among the sources. The definitions of this section
  follow sections 3 and 4.2 of the specification.
\<close>

text \<open>
  Modelled from the spec: the states of a booking, "Pending, Confirmed, CheckedIn,
  CheckedOut, Cancelled" (the status type of the missing store module).
\<close>

datatype BookingStatus = Pending | Confirmed | CheckedIn | CheckedOut | Cancelled

text \<open>
  Modelled from the spec: the Booking record of section 3 (declared in the missing store
  module): an identifier, the validated fields, a status, the creation time, and the time
  of the last status change.
\<close>

record 'v Booking =
  booking_id :: nat
  details :: 'v
  status :: BookingStatus
  createdAt :: nat
  updatedAt :: "nat option"

text \<open>
  Modelled from the spec: the state of the missing store, "the mapping of booking identity
  to booking record", held as the list of bookings in insertion order, each under its own
  identifier, with its persisted copy; every mutation writes through, and the write is
  taken to succeed.
\<close>

record 'v Store =
  bookings :: "'v Booking list"
  persisted :: "'v Booking list"

text \<open>
  Modelled from the spec: the error values of the missing store operations, section 7.
\<close>

datatype StoreError = ValidationError "issue list" | NotFound | InvalidTransition

text \<open>
  Modelled from the spec: the lifecycle graph of section 4.2 that the missing
  \<open>transition\<close> applies, "Confirmed to CheckedIn; CheckedIn to CheckedOut; Confirmed to
  Cancelled; Pending to Confirmed; Pending to Cancelled", everything else rejected.
\<close>

fun allowed :: "BookingStatus \<Rightarrow> BookingStatus \<Rightarrow> bool" where
  "allowed Confirmed CheckedIn = True"
| "allowed CheckedIn CheckedOut = True"
| "allowed Confirmed Cancelled = True"
| "allowed Pending Confirmed = True"
| "allowed Pending Cancelled = True"
| "allowed _ _ = False"

text \<open>
  Modelled from the spec: the same five edges of the missing store's lifecycle, as a set.
\<close>

definition lifecycle_edges :: "(BookingStatus \<times> BookingStatus) set" where
  "lifecycle_edges =
     {(Confirmed, CheckedIn), (CheckedIn, CheckedOut), (Confirmed, Cancelled),
      (Pending, Confirmed), (Pending, Cancelled)}"

text \<open>
  Modelled from the spec: the missing store's initial state, "otherwise initializes empty".
\<close>

definition empty_store :: "'v Store" where
  "empty_store = \<lparr>bookings = [], persisted = []\<rparr>"

text \<open>
  Modelled from the spec: the missing lookup, "findById(id) gives the Booking or NotFound".
\<close>

definition findById :: "'v Store \<Rightarrow> nat \<Rightarrow> StoreError + 'v Booking" where
  "findById s i =
     (case find (\<lambda>b. booking_id b = i) (bookings s) of
        None \<Rightarrow> Inl NotFound
      | Some b \<Rightarrow> Inr b)"

text \<open>
  Modelled from the spec: the missing identifier generator, "assigns a fresh unique id".
  The fresh identifier is the successor of the largest identifier in the store.
\<close>

definition fresh_id :: "'v Store \<Rightarrow> nat" where
  "fresh_id s = Suc (fold max (map booking_id (bookings s)) 0)"

text \<open>
  Modelled from the spec: the missing operation \<open>create\<close>, which "runs validation; on
  success, assigns a fresh unique id and createdAt, sets status Confirmed, inserts into the
  map, persists, and returns the stored record. On validation failure, the store is not
  mutated." The validation layer and the clock are parameters, so what is proved holds for
  any validation layer, the schema of the form included.
\<close>

definition create ::
  "('c \<Rightarrow> issue list + 'v) \<Rightarrow> nat \<Rightarrow> 'c \<Rightarrow> 'v Store \<Rightarrow> (StoreError + 'v Booking) \<times> 'v Store" where
  "create validate now c s =
     (case validate c of
        Inl errs \<Rightarrow> (Inl (ValidationError errs), s)
      | Inr v \<Rightarrow>
          (let b = \<lparr>booking_id = fresh_id s, details = v, status = Confirmed,
                    createdAt = now, updatedAt = None\<rparr>;
               m = bookings s @ [b]
           in (Inr b, \<lparr>bookings = m, persisted = m\<rparr>)))"

text \<open>
  Modelled from the spec: the missing operation \<open>transition\<close>, which "applies the
  adjacency rule; persists on success"; an unknown identifier is NotFound, a change outside
  the graph is InvalidTransition, and both leave the store as it was.
\<close>

definition transition ::
  "nat \<Rightarrow> nat \<Rightarrow> BookingStatus \<Rightarrow> 'v Store \<Rightarrow> (StoreError + 'v Booking) \<times> 'v Store" where
  "transition now i target s =
     (case find (\<lambda>b. booking_id b = i) (bookings s) of
        None \<Rightarrow> (Inl NotFound, s)
      | Some b \<Rightarrow>
          (if allowed (status b) target then
             (let b' = b\<lparr>status := target, updatedAt := Some now\<rparr>;
                  m = map (\<lambda>x. if booking_id x = i then b' else x) (bookings s)
              in (Inr b', \<lparr>bookings = m, persisted = m\<rparr>))
           else (Inl InvalidTransition, s)))"

section \<open>Concrete inputs\<close>

text \<open>
  The booking of the specification's end-to-end scenario, as the form's raw values and
  as parsed data, and the name each room type is written with.
\<close>

definition jane :: candidate where
  "jane = \<lparr>guestName = Some ''Jane Doe'', roomType = Some ''Suite'',
            checkInDate = Some ''2025-06-01'', checkOutDate = Some ''2025-06-05'',
            contactNumber = Some ''9876543210'', email = Some ''jane@example.com'',
            idProof = None\<rparr>"

definition jane_data :: BookingFormData where
  "jane_data = \<lparr>guestName = ''Jane Doe'', roomType = Suite,
                 checkInDate = ''2025-06-01'', checkOutDate = ''2025-06-05'',
                 contactNumber = ''9876543210'', email = ''jane@example.com'',
                 idProof = None\<rparr>"

definition RoomType_name :: "RoomType \<Rightarrow> string" where
  "RoomType_name r =
     (case r of Single \<Rightarrow> ''Single'' | Double \<Rightarrow> ''Double''
      | Deluxe \<Rightarrow> ''Deluxe'' | Suite \<Rightarrow> ''Suite'')"

text \<open>Two stores for concrete runs: one that keeps every booking, one that always throws.\<close>

definition accepting_addBooking ::
  "BookingFormData \<Rightarrow> BookingFormData list \<Rightarrow> BookingFormData list outcome" where
  "accepting_addBooking b bs = Returns (bs @ [b])"

definition failing_addBooking ::
  "BookingFormData \<Rightarrow> BookingFormData list \<Rightarrow> BookingFormData list outcome" where
  "failing_addBooking b bs = Throws bs"

text \<open>A store that holds Jane Doe's booking in a given status.\<close>

definition booking1 :: "BookingStatus \<Rightarrow> BookingFormData Booking" where
  "booking1 st =
     \<lparr>booking_id = 1, details = jane_data, status = st, createdAt = 7, updatedAt = None\<rparr>"

definition store1 :: "BookingStatus \<Rightarrow> BookingFormData Store" where
  "store1 st = \<lparr>bookings = [booking1 st], persisted = [booking1 st]\<rparr>"


section \<open>Facts about the schema\<close>

lemma dom_toFieldErrors: "dom (toFieldErrors is) = path ` set is"
  by (simp add: toFieldErrors_def dom_map_of_conv_image_fst image_image)

lemma z_string_None:
  "z_string p ch None = (INVALID, [\<lparr>path = p, message = ''Required''\<rparr>])"
  by (simp add: z_string_def)

lemma z_string_one:
  "z_string p [(ok, m)] (Some s) =
     (if ok s then OK s else DIRTY s, if ok s then [] else [\<lparr>path = p, message = m\<rparr>])"
  by (simp add: z_string_def)

lemma z_string_two:
  "z_string p [(ok, m), (ok', m')] (Some s) =
     (if ok s \<and> ok' s then OK s else DIRTY s,
      (if ok s then [] else [\<lparr>path = p, message = m\<rparr>])
      @ (if ok' s then [] else [\<lparr>path = p, message = m'\<rparr>]))"
  by (simp add: z_string_def)

lemma z_string_value: "value_of (fst (z_string p ch v)) = v"
  by (simp add: z_string_def Let_def split: option.splits)

lemma z_enum_value: "value_of (fst (z_enum_RoomType p e v)) = Option.bind v RoomType_of"
  by (simp add: z_enum_RoomType_def split: option.splits)

lemma z_enum_Some:
  "RoomType_of s = Some r \<Longrightarrow> z_enum_RoomType p e (Some s) = (OK r, [])"
  by (simp add: z_enum_RoomType_def)

lemma value_of_if: "value_of (if b then OK s else DIRTY s) = Some s"
  by simp

lemma is_dirty_if: "is_dirty (if b then OK s else DIRTY s) = (\<not> b)"
  by simp

lemmas field_schemas = guestName_schema_def roomType_schema_def checkInDate_schema_def
  checkOutDate_schema_def contactNumber_schema_def email_schema_def

lemma bookingObject_split:
  "bookingObject E c =
     (mergeObjectSync (fst (guestName_schema (guestName c))) (fst (roomType_schema (roomType c)))
        (fst (checkInDate_schema (checkInDate c))) (fst (checkOutDate_schema (checkOutDate c)))
        (fst (contactNumber_schema (contactNumber c))) (fst (email_schema E (email c)))
        (idProof c),
      snd (guestName_schema (guestName c)) @ snd (roomType_schema (roomType c))
        @ snd (checkInDate_schema (checkInDate c)) @ snd (checkOutDate_schema (checkOutDate c))
        @ snd (contactNumber_schema (contactNumber c)) @ snd (email_schema E (email c)))"
  by (simp add: bookingObject_def split_def Let_def)

lemma bookingObject_INVALID:
  "\<not> object_parses c \<Longrightarrow> fst (bookingObject E c) = INVALID"
  by (auto simp: bookingObject_split mergeObjectSync_def field_schemas z_string_value
      z_enum_value object_parses_def split: option.splits)

lemma bookingObject_Some:
  assumes "guestName c = Some g" "roomType c = Some r" "RoomType_of r = Some rt"
    "checkInDate c = Some ci" "checkOutDate c = Some co" "contactNumber c = Some cn"
    "email c = Some e"
  shows "bookingObject E c =
     (let d = \<lparr>guestName = g, roomType = rt, checkInDate = ci, checkOutDate = co,
               contactNumber = cn, email = e, idProof = idProof c\<rparr>
      in (if (2 \<le> length g \<and> length g \<le> 50) \<and> 1 \<le> length ci \<and> 1 \<le> length co
               \<and> contact_regex cn \<and> email_regex E e
          then OK d else DIRTY d,
       (if 2 \<le> length g then [] else [\<lparr>path = ''guestName'', message = ''Name must be at least 2 characters''\<rparr>])
       @ (if length g \<le> 50 then [] else [\<lparr>path = ''guestName'', message = ''Name too long''\<rparr>])
       @ (if 1 \<le> length ci then [] else [\<lparr>path = ''checkInDate'', message = ''Check-in date is required''\<rparr>])
       @ (if 1 \<le> length co then [] else [\<lparr>path = ''checkOutDate'', message = ''Check-out date is required''\<rparr>])
       @ (if contact_regex cn then [] else [\<lparr>path = ''contactNumber'', message = ''Contact number must be 10 digits''\<rparr>])
       @ (if email_regex E e then [] else [\<lparr>path = ''email'', message = ''Invalid email address''\<rparr>])))"
  unfolding bookingObject_split field_schemas assms z_string_one z_string_two
    z_enum_Some[OF assms(3)] fst_conv snd_conv mergeObjectSync_def value_of_if
    value_of.simps is_dirty_if is_dirty.simps option.case Let_def
  by simp


lemma object_parsesE:
  assumes "object_parses c"
  obtains g r rt ci co cn e where "guestName c = Some g" "roomType c = Some r"
    "RoomType_of r = Some rt" "checkInDate c = Some ci" "checkOutDate c = Some co"
    "contactNumber c = Some cn" "email c = Some e"
  using assms by (auto simp: object_parses_def split: option.splits)

lemma issues_of_eq:
  "issues_of E c = snd (bookingObject E c)
      @ (if object_parses c \<and> \<not> checkOut_later E c then [date_order_issue] else [])"
proof (cases "object_parses c")
  case False
  obtain r iss where b: "bookingObject E c = (r, iss)" by (cases "bookingObject E c")
  with bookingObject_INVALID[OF False, of E] have "r = INVALID" by simp
  with b False show ?thesis
    by (simp add: issues_of_def bookingSchema_def bookingSchema_parse_def refine_def safeParse_def)
next
  case True
  then obtain g r rt ci co cn e where f: "guestName c = Some g" "roomType c = Some r"
    "RoomType_of r = Some rt" "checkInDate c = Some ci" "checkOutDate c = Some co"
    "contactNumber c = Some cn" "email c = Some e"
    by (rule object_parsesE)
  have l: "checkOut_later E c = date_gt (Date_parse E co) (Date_parse E ci)"
    by (simp add: checkOut_later_def f)
  show ?thesis
    unfolding issues_of_def bookingSchema_def bookingSchema_parse_def bookingObject_Some[OF f]
    by (simp add: True l refine_def safeParse_def checkOut_after_checkIn_def Let_def)
qed

lemma accepted_issues: "bookingSchema E c = Inr d \<Longrightarrow> issues_of E c = []"
  by (simp add: issues_of_def)

lemma rejected_issues: "bookingSchema E c = Inl iss \<Longrightarrow> issues_of E c = iss \<and> iss \<noteq> []"
proof -
  assume a: "bookingSchema E c = Inl iss"
  then have i: "issues_of E c = iss" by (simp add: issues_of_def)
  show ?thesis
  proof (cases "object_parses c")
    case False
    then have "snd (bookingObject E c) \<noteq> []"
      by (auto simp: bookingObject_split field_schemas z_string_None z_enum_RoomType_def
          object_parses_def split: option.splits)
    with i show ?thesis by (auto simp: issues_of_eq)
  next
    case True
    then obtain g r rt ci co cn e where f: "guestName c = Some g" "roomType c = Some r"
      "RoomType_of r = Some rt" "checkInDate c = Some ci" "checkOutDate c = Some co"
      "contactNumber c = Some cn" "email c = Some e"
      by (rule object_parsesE)
    from a have "iss \<noteq> []"
      unfolding bookingSchema_def bookingSchema_parse_def bookingObject_Some[OF f]
      by (auto simp: refine_def safeParse_def Let_def split: if_splits)
    with i show ?thesis by simp
  qed
qed

lemma accepted_iff: "(\<exists>d. bookingSchema E c = Inr d) = (issues_of E c = [])"
  using accepted_issues[of E c] rejected_issues[of E c]
  by (cases "bookingSchema E c") auto

lemma accepted_data:
  assumes "bookingSchema E c = Inr d"
  shows "guestName c = Some (guestName d)
           \<and> (\<exists>r. roomType c = Some r \<and> RoomType_of r = Some (roomType d))
           \<and> checkInDate c = Some (checkInDate d)
           \<and> checkOutDate c = Some (checkOutDate d)
           \<and> contactNumber c = Some (contactNumber d)
           \<and> email c = Some (email d)
           \<and> idProof c = idProof d
           \<and> checkOut_after_checkIn E d"
proof -
  have p: "object_parses c"
  proof (rule ccontr)
    assume n: "\<not> object_parses c"
    obtain r iss where b: "bookingObject E c = (r, iss)" by (cases "bookingObject E c")
    with bookingObject_INVALID[OF n, of E] have "r = INVALID" by simp
    with b assms show False
      by (simp add: bookingSchema_def bookingSchema_parse_def refine_def safeParse_def)
  qed
  then obtain g r rt ci co cn e where f: "guestName c = Some g" "roomType c = Some r"
    "RoomType_of r = Some rt" "checkInDate c = Some ci" "checkOutDate c = Some co"
    "contactNumber c = Some cn" "email c = Some e"
    by (rule object_parsesE)
  from assms show ?thesis
    unfolding bookingSchema_def bookingSchema_parse_def bookingObject_Some[OF f]
    by (auto simp: f refine_def safeParse_def Let_def split: if_splits)
qed

lemma guestName_paths:
  "f \<in> path ` set (snd (guestName_schema v)) \<longleftrightarrow>
     f = ''guestName'' \<and> (case v of None \<Rightarrow> True | Some s \<Rightarrow> length s < 2 \<or> 50 < length s)"
  by (cases v) (auto simp: guestName_schema_def z_string_None z_string_two)

lemma roomType_paths:
  "f \<in> path ` set (snd (roomType_schema v)) \<longleftrightarrow>
     f = ''roomType'' \<and> (case v of None \<Rightarrow> True | Some s \<Rightarrow> RoomType_of s = None)"
  by (cases v) (auto simp: roomType_schema_def z_enum_RoomType_def split: option.splits)

lemma checkInDate_paths:
  "f \<in> path ` set (snd (checkInDate_schema v)) \<longleftrightarrow>
     f = ''checkInDate'' \<and> (case v of None \<Rightarrow> True | Some s \<Rightarrow> s = [])"
  by (cases v) (auto simp: checkInDate_schema_def z_string_None z_string_one Suc_le_eq)

lemma checkOutDate_paths:
  "f \<in> path ` set (snd (checkOutDate_schema v)) \<longleftrightarrow>
     f = ''checkOutDate'' \<and> (case v of None \<Rightarrow> True | Some s \<Rightarrow> s = [])"
  by (cases v) (auto simp: checkOutDate_schema_def z_string_None z_string_one Suc_le_eq)

lemma contactNumber_paths:
  "f \<in> path ` set (snd (contactNumber_schema v)) \<longleftrightarrow>
     f = ''contactNumber'' \<and> (case v of None \<Rightarrow> True | Some s \<Rightarrow> \<not> contact_regex s)"
  by (cases v) (auto simp: contactNumber_schema_def z_string_None z_string_one)

lemma email_paths:
  "f \<in> path ` set (snd (email_schema E v)) \<longleftrightarrow>
     f = ''email'' \<and> (case v of None \<Rightarrow> True | Some s \<Rightarrow> \<not> email_regex E s)"
  by (cases v) (auto simp: email_schema_def z_string_None z_string_one)

lemma field_check_fails_alt:
  "field_check_fails E c f =
     (f = ''guestName'' \<and> (case guestName c of None \<Rightarrow> True | Some s \<Rightarrow> length s < 2 \<or> 50 < length s)
      \<or> f = ''roomType'' \<and> (case roomType c of None \<Rightarrow> True | Some s \<Rightarrow> RoomType_of s = None)
      \<or> f = ''checkInDate'' \<and> (case checkInDate c of None \<Rightarrow> True | Some s \<Rightarrow> s = [])
      \<or> f = ''checkOutDate'' \<and> (case checkOutDate c of None \<Rightarrow> True | Some s \<Rightarrow> s = [])
      \<or> f = ''contactNumber'' \<and> (case contactNumber c of None \<Rightarrow> True | Some s \<Rightarrow> \<not> contact_regex s)
      \<or> f = ''email'' \<and> (case email c of None \<Rightarrow> True | Some s \<Rightarrow> \<not> email_regex E s))"
  unfolding field_check_fails_def by simp

lemma object_issue_paths:
  "f \<in> path ` set (snd (bookingObject E c)) \<longleftrightarrow> field_check_fails E c f"
  unfolding bookingObject_split snd_conv set_append image_Un Un_iff guestName_paths
    roomType_paths checkInDate_paths checkOutDate_paths contactNumber_paths email_paths
    field_check_fails_alt
  by (rule refl)

lemma error_fields:
  "dom (errors E c) = {f. field_check_fails E c f}
      \<union> (if object_parses c \<and> \<not> checkOut_later E c then {''checkOutDate''} else {})"
proof -
  have "path ` set (snd (bookingObject E c)) = {f. field_check_fails E c f}"
    using object_issue_paths[of _ E c] by blast
  then show ?thesis
    by (auto simp: errors_def dom_toFieldErrors issues_of_eq image_Un date_order_issue_def)
qed

lemma RoomType_of_Some: "(RoomType_of s = Some r) = (s = RoomType_name r)"
  by (cases r) (simp_all add: RoomType_of_def RoomType_name_def)

lemma RoomType_of_None:
  "(RoomType_of s = None) = (s \<notin> {''Single'', ''Double'', ''Deluxe'', ''Suite''})"
  by (simp add: RoomType_of_def)

lemma later_of_accepted:
  assumes "bookingSchema E c = Inr d" shows "checkOut_later E c"
  using accepted_data[OF assms]
  by (auto simp: checkOut_later_def checkOut_after_checkIn_def Let_def)

lemma date_order_issue_not_in_object: "date_order_issue \<notin> set (snd (bookingObject E c))"
proof
  assume a: "date_order_issue \<in> set (snd (bookingObject E c))"
  have n: "date_order_issue \<notin> set (snd (checkOutDate_schema v))" for v
    by (cases v) (simp_all add: checkOutDate_schema_def z_string_None z_string_one date_order_issue_def)
  have p: "path date_order_issue = ''checkOutDate''" by (simp add: date_order_issue_def)
  have o: "x \<in> set (snd (guestName_schema (guestName c))) \<Longrightarrow> path x = ''guestName''" for x
    using guestName_paths[of "path x" "guestName c"] by blast
  have o2: "x \<in> set (snd (roomType_schema (roomType c))) \<Longrightarrow> path x = ''roomType''" for x
    using roomType_paths[of "path x" "roomType c"] by blast
  have o3: "x \<in> set (snd (checkInDate_schema (checkInDate c))) \<Longrightarrow> path x = ''checkInDate''" for x
    using checkInDate_paths[of "path x" "checkInDate c"] by blast
  have o4: "x \<in> set (snd (contactNumber_schema (contactNumber c))) \<Longrightarrow> path x = ''contactNumber''" for x
    using contactNumber_paths[of "path x" "contactNumber c"] by blast
  have o5: "x \<in> set (snd (email_schema E (email c))) \<Longrightarrow> path x = ''email''" for x
    using email_paths[of "path x" E "email c"] by blast
  from a have "date_order_issue \<in> set (snd (guestName_schema (guestName c)))
     \<or> date_order_issue \<in> set (snd (roomType_schema (roomType c)))
     \<or> date_order_issue \<in> set (snd (checkInDate_schema (checkInDate c)))
     \<or> date_order_issue \<in> set (snd (checkOutDate_schema (checkOutDate c)))
     \<or> date_order_issue \<in> set (snd (contactNumber_schema (contactNumber c)))
     \<or> date_order_issue \<in> set (snd (email_schema E (email c)))"
    by (simp add: bookingObject_split)
  then show False
    using o[of date_order_issue] o2[of date_order_issue] o3[of date_order_issue]
      o4[of date_order_issue] o5[of date_order_issue] n[of "checkOutDate c"]
    by (auto simp: p)
qed

lemma date_order_issue_iff:
  "date_order_issue \<in> set (issues_of E c) \<longleftrightarrow> object_parses c \<and> \<not> checkOut_later E c"
  by (simp add: issues_of_eq date_order_issue_not_in_object)

lemma error_iff: "f \<in> dom (errors E c) \<longleftrightarrow>
    field_check_fails E c f \<or> (f = ''checkOutDate'' \<and> object_parses c \<and> \<not> checkOut_later E c)"
  unfolding error_fields by auto

lemma error_rejects: "f \<in> dom (errors E c) \<Longrightarrow> isl (bookingSchema E c)"
  by (cases "bookingSchema E c") (auto simp: errors_def issues_of_def toFieldErrors_def)

lemma accepted_dates_parse:
  assumes "bookingSchema E c = Inr d"
  shows "Date_parse E (checkInDate d) \<noteq> None \<and> Date_parse E (checkOutDate d) \<noteq> None"
  using accepted_data[OF assms]
  by (auto simp: checkOut_after_checkIn_def date_gt_def Let_def split: option.splits)

lemma checkOutDate_message:
  assumes "object_parses c" "\<not> checkOut_later E c" "checkOutDate c = Some co" "co \<noteq> []"
  shows "errors E c ''checkOutDate'' = Some ''Check-out date must be after check-in date''"
proof -
  have "\<not> field_check_fails E c ''checkOutDate''"
    using assms(3,4) by (simp add: field_check_fails_def)
  then have "''checkOutDate'' \<notin> path ` set (snd (bookingObject E c))"
    by (simp add: object_issue_paths)
  then have "map_of (map (\<lambda>i. (path i, message i)) (snd (bookingObject E c))) ''checkOutDate'' = None"
    by (simp add: map_of_eq_None_iff image_image)
  then show ?thesis
    using assms(1,2)
    by (simp add: errors_def toFieldErrors_def issues_of_eq map_add_def date_order_issue_def)
qed

lemma unparsed_not_later:
  assumes "(\<exists>s. checkOutDate c = Some s \<and> Date_parse E s = None)
           \<or> (\<exists>s. checkInDate c = Some s \<and> Date_parse E s = None)"
  shows "\<not> checkOut_later E c"
proof (cases "checkOutDate c")
  case None
  then show ?thesis by (simp add: checkOut_later_def)
next
  case co: (Some co)
  show ?thesis
  proof (cases "checkInDate c")
    case None
    then show ?thesis by (simp add: checkOut_later_def co)
  next
    case (Some ci)
    with co assms show ?thesis
      by (cases "Date_parse E co"; cases "Date_parse E ci") (simp_all add: checkOut_later_def date_gt_def)
  qed
qed

lemma addBooking_argument_id: "addBooking_argument d = d"
  by (simp add: addBooking_argument_def)

subsection \<open>Facts about the store\<close>

lemma allowed_iff: "allowed a b \<longleftrightarrow> (a, b) \<in> lifecycle_edges"
  by (cases a; cases b) (simp_all add: lifecycle_edges_def)

lemma terminal_not_allowed: "a = CheckedOut \<or> a = Cancelled \<Longrightarrow> \<not> allowed a b"
  by (cases b) auto

lemma find_after_update:
  "find (\<lambda>b. booking_id b = i) xs = Some b \<Longrightarrow> booking_id b' = i \<Longrightarrow>
   find (\<lambda>b. booking_id b = i) (map (\<lambda>x. if booking_id x = i then b' else x) xs) = Some b'"
  by (induction xs) (auto split: if_splits)

lemma findById_Inr: "(findById s i = Inr b) = (find (\<lambda>b. booking_id b = i) (bookings s) = Some b)"
  by (simp add: findById_def split: option.splits)

lemma find_id: "find (\<lambda>b. booking_id b = i) xs = Some b \<Longrightarrow> booking_id b = i"
  by (induction xs) (auto split: if_splits)

lemma fold_max_ge: "fold max xs (a::nat) \<ge> a \<and> (\<forall>x\<in>set xs. x \<le> fold max xs a)"
proof (induction xs arbitrary: a)
  case Nil
  then show ?case by simp
next
  case (Cons y ys)
  from Cons[of "max y a"] show ?case by auto
qed

lemma fresh_id_new: "b \<in> set (bookings s) \<Longrightarrow> booking_id b < fresh_id s"
  using fold_max_ge[of 0 "map booking_id (bookings s)"] by (auto simp: fresh_id_def less_Suc_eq_le)

lemma find_fresh:
  "\<forall>x\<in>set xs. booking_id x \<noteq> booking_id b \<Longrightarrow>
   find (\<lambda>x. booking_id x = booking_id b) (xs @ [b]) = Some b"
  by (induction xs) auto

lemma find_append_Some:
  "find P xs = Some b \<Longrightarrow> find P (xs @ ys) = Some b"
  by (induction xs) (auto split: if_splits)

lemma find_None_fresh:
  "\<forall>x\<in>set xs. booking_id x \<noteq> i \<Longrightarrow> find (\<lambda>x. booking_id x = i) xs = None"
  by (induction xs) auto

section \<open>The cross-field rule on the two dates\<close>

text \<open>
  Claim C1, as the schema implements it. A candidate whose check-out date is not later
  than its check-in date (equal dates included, and also when one of the two is not a
  date) is always rejected. When the object schema delivers a value, that is when all six
  required fields are strings and the room type is one of the four, the refinement runs:
  it then reports the issue \<open>date_order_issue\<close>, whose path is
  \<^verbatim>\<open>checkOutDate\<close>, so the form's error object has an entry for that field.
  When the check-out date is later, the refinement reports nothing.
\<close>

theorem cross_field_rule:
  "(\<not> checkOut_later E c \<longrightarrow> isl (bookingSchema E c))
   \<and> (object_parses c \<and> \<not> checkOut_later E c \<longrightarrow>
        date_order_issue \<in> set (issues_of E c) \<and> ''checkOutDate'' \<in> dom (errors E c))
   \<and> (checkOut_later E c \<longrightarrow> date_order_issue \<notin> set (issues_of E c))"
proof (intro conjI impI)
  assume "\<not> checkOut_later E c"
  then show "isl (bookingSchema E c)"
    using later_of_accepted[of E c] by (cases "bookingSchema E c") auto
next
  assume a: "object_parses c \<and> \<not> checkOut_later E c"
  then show "date_order_issue \<in> set (issues_of E c)" by (simp add: date_order_issue_iff)
  from a show "''checkOutDate'' \<in> dom (errors E c)" by (simp add: error_iff)
next
  assume "checkOut_later E c"
  then show "date_order_issue \<notin> set (issues_of E c)" by (simp add: date_order_issue_iff)
qed

text \<open>
  Equal dates are rejected with the error on \<^verbatim>\<open>checkOutDate\<close>; Jane Doe's booking, four
  nights, passes the rule.
\<close>

theorem cross_field_rule_witness:
  "object_parses (jane\<lparr>checkOutDate := Some ''2025-06-01''\<rparr>)
   \<and> \<not> checkOut_later reference_engine (jane\<lparr>checkOutDate := Some ''2025-06-01''\<rparr>)
   \<and> isl (bookingSchema reference_engine (jane\<lparr>checkOutDate := Some ''2025-06-01''\<rparr>))
   \<and> date_order_issue \<in> set (issues_of reference_engine (jane\<lparr>checkOutDate := Some ''2025-06-01''\<rparr>))
   \<and> ''checkOutDate'' \<in> dom (errors reference_engine (jane\<lparr>checkOutDate := Some ''2025-06-01''\<rparr>))
   \<and> checkOut_later reference_engine jane
   \<and> date_order_issue \<notin> set (issues_of reference_engine jane)"
proof -
  have p: "object_parses (jane\<lparr>checkOutDate := Some ''2025-06-01''\<rparr>)" by code_simp
  have n: "\<not> checkOut_later reference_engine (jane\<lparr>checkOutDate := Some ''2025-06-01''\<rparr>)"
    by code_simp
  have l: "checkOut_later reference_engine jane" by code_simp
  show ?thesis
    using p n l cross_field_rule[of reference_engine "jane\<lparr>checkOutDate := Some ''2025-06-01''\<rparr>"]
      cross_field_rule[of reference_engine jane]
    by blast
qed

text \<open>
  Without the hypothesis on the object schema the error is not reported: with no room type
  chosen and equal dates, the only issue is the one on \<^verbatim>\<open>roomType\<close>, and
  \<^verbatim>\<open>checkOutDate\<close> has no error.
\<close>

theorem cross_field_error_absent_without_roomType:
  "\<not> checkOut_later reference_engine
        (jane\<lparr>roomType := None, checkOutDate := Some ''2025-06-01''\<rparr>)
   \<and> bookingSchema reference_engine
        (jane\<lparr>roomType := None, checkOutDate := Some ''2025-06-01''\<rparr>)
      = Inl [\<lparr>path = ''roomType'', message = ''Please select a room type''\<rparr>]
   \<and> errors reference_engine
        (jane\<lparr>roomType := None, checkOutDate := Some ''2025-06-01''\<rparr>) ''checkOutDate'' = None"
  by code_simp

section \<open>All field errors in one result\<close>

text \<open>
  Claim C2, as the schema implements it. Every field whose own check fails has an entry in
  the error object, whatever else fails. The cross-field error on
  \<^verbatim>\<open>checkOutDate\<close> is reported beside them (beside a bad guest name, contact number,
  e-mail address or empty date) as long as the object schema delivers a value. There are
  no other entries, and the entries are exactly the paths of the reported issues.
\<close>

theorem field_errors_reported_together:
  "(field_check_fails E c f \<longrightarrow> f \<in> dom (errors E c))
   \<and> (object_parses c \<and> \<not> checkOut_later E c \<longrightarrow> ''checkOutDate'' \<in> dom (errors E c))
   \<and> (f \<in> dom (errors E c) \<longrightarrow>
        field_check_fails E c f
        \<or> (f = ''checkOutDate'' \<and> object_parses c \<and> \<not> checkOut_later E c))
   \<and> dom (errors E c) = path ` set (issues_of E c)"
proof -
  have "dom (errors E c) = path ` set (issues_of E c)"
    by (simp add: errors_def dom_toFieldErrors)
  then show ?thesis
    using error_iff[of f E c] error_iff[of "''checkOutDate''" E c] by blast
qed

text \<open>
  A one-letter guest name and a check-out date before the check-in date are reported
  together.
\<close>

theorem field_errors_reported_together_witness:
  "field_check_fails reference_engine
      (jane\<lparr>guestName := Some ''J'', checkOutDate := Some ''2025-05-30''\<rparr>) ''guestName''
   \<and> object_parses (jane\<lparr>guestName := Some ''J'', checkOutDate := Some ''2025-05-30''\<rparr>)
   \<and> \<not> checkOut_later reference_engine
      (jane\<lparr>guestName := Some ''J'', checkOutDate := Some ''2025-05-30''\<rparr>)
   \<and> ''guestName'' \<in> dom (errors reference_engine
      (jane\<lparr>guestName := Some ''J'', checkOutDate := Some ''2025-05-30''\<rparr>))
   \<and> ''checkOutDate'' \<in> dom (errors reference_engine
      (jane\<lparr>guestName := Some ''J'', checkOutDate := Some ''2025-05-30''\<rparr>))"
proof -
  have a: "field_check_fails reference_engine
      (jane\<lparr>guestName := Some ''J'', checkOutDate := Some ''2025-05-30''\<rparr>) ''guestName''"
    by code_simp
  have b: "object_parses (jane\<lparr>guestName := Some ''J'', checkOutDate := Some ''2025-05-30''\<rparr>)"
    by code_simp
  have c: "\<not> checkOut_later reference_engine
      (jane\<lparr>guestName := Some ''J'', checkOutDate := Some ''2025-05-30''\<rparr>)"
    by code_simp
  show ?thesis
    using a b c field_errors_reported_together[of reference_engine
        "jane\<lparr>guestName := Some ''J'', checkOutDate := Some ''2025-05-30''\<rparr>" "''guestName''"]
    by blast
qed

text \<open>
  With an unrecognised room type the object schema aborts and the refinement is skipped:
  the reversed dates are not reported, the errors are those of \<^verbatim>\<open>guestName\<close> and
  \<^verbatim>\<open>roomType\<close> only.
\<close>

theorem cross_field_error_omitted_beside_roomType_error:
  "\<not> checkOut_later reference_engine
      (jane\<lparr>guestName := Some ''J'', roomType := Some ''Penthouse'',
            checkOutDate := Some ''2025-05-30''\<rparr>)
   \<and> errors reference_engine
      (jane\<lparr>guestName := Some ''J'', roomType := Some ''Penthouse'',
            checkOutDate := Some ''2025-05-30''\<rparr>) ''guestName''
      = Some ''Name must be at least 2 characters''
   \<and> errors reference_engine
      (jane\<lparr>guestName := Some ''J'', roomType := Some ''Penthouse'',
            checkOutDate := Some ''2025-05-30''\<rparr>) ''roomType'' \<noteq> None
   \<and> errors reference_engine
      (jane\<lparr>guestName := Some ''J'', roomType := Some ''Penthouse'',
            checkOutDate := Some ''2025-05-30''\<rparr>) ''checkOutDate'' = None"
  by code_simp

section \<open>The date fields\<close>

text \<open>
  Claim C3, as the schema implements it. Each date field must be present and non-empty,
  and a missing or empty date is reported on its own field; \<^verbatim>\<open>checkInDate\<close> has no
  other error. An accepted candidate has two dates that parse, handed on as submitted.
  A date that is present but does not parse makes the comparison false, so (when the
  object schema delivers a value) the error is on \<^verbatim>\<open>checkOutDate\<close>, whichever of the
  two dates is malformed; a non-empty malformed \<^verbatim>\<open>checkInDate\<close> has no error of its own.
\<close>

theorem date_fields_checks:
  "(''checkInDate'' \<in> dom (errors E c) \<longleftrightarrow> checkInDate c = None \<or> checkInDate c = Some [])
   \<and> (checkOutDate c = None \<or> checkOutDate c = Some [] \<longrightarrow> ''checkOutDate'' \<in> dom (errors E c))
   \<and> (bookingSchema E c = Inr d \<longrightarrow>
         checkInDate c = Some (checkInDate d) \<and> checkOutDate c = Some (checkOutDate d)
         \<and> Date_parse E (checkInDate d) \<noteq> None \<and> Date_parse E (checkOutDate d) \<noteq> None)
   \<and> (object_parses c \<and> checkOutDate c = Some s \<and> Date_parse E s = None \<longrightarrow>
         ''checkOutDate'' \<in> dom (errors E c))
   \<and> (object_parses c \<and> checkInDate c = Some s \<and> Date_parse E s = None \<longrightarrow>
         ''checkOutDate'' \<in> dom (errors E c) \<and> (s \<noteq> [] \<longrightarrow> ''checkInDate'' \<notin> dom (errors E c)))"
proof (intro conjI impI)
  show "''checkInDate'' \<in> dom (errors E c) \<longleftrightarrow> checkInDate c = None \<or> checkInDate c = Some []"
    using error_iff[of "''checkInDate''" E c]
    by (cases "checkInDate c") (simp_all add: field_check_fails_def)
next
  assume "checkOutDate c = None \<or> checkOutDate c = Some []"
  then have "field_check_fails E c ''checkOutDate''" by (auto simp: field_check_fails_def)
  then show "''checkOutDate'' \<in> dom (errors E c)"
    using error_iff[of "''checkOutDate''" E c] by blast
next
  assume a: "bookingSchema E c = Inr d"
  from accepted_data[OF a] show "checkInDate c = Some (checkInDate d)" by simp
  from accepted_data[OF a] show "checkOutDate c = Some (checkOutDate d)" by simp
  from accepted_dates_parse[OF a] show "Date_parse E (checkInDate d) \<noteq> None" by simp
  from accepted_dates_parse[OF a] show "Date_parse E (checkOutDate d) \<noteq> None" by simp
next
  assume a: "object_parses c \<and> checkOutDate c = Some s \<and> Date_parse E s = None"
  then have "\<not> checkOut_later E c" by (rule_tac unparsed_not_later) blast
  with a show "''checkOutDate'' \<in> dom (errors E c)"
    using error_iff[of "''checkOutDate''" E c] by blast
next
  assume a: "object_parses c \<and> checkInDate c = Some s \<and> Date_parse E s = None"
  then have "\<not> checkOut_later E c" by (rule_tac unparsed_not_later) blast
  with a show "''checkOutDate'' \<in> dom (errors E c)"
    using error_iff[of "''checkOutDate''" E c] by blast
next
  assume a: "object_parses c \<and> checkInDate c = Some s \<and> Date_parse E s = None" and "s \<noteq> []"
  then have "\<not> field_check_fails E c ''checkInDate''" by (simp add: field_check_fails_def)
  then show "''checkInDate'' \<notin> dom (errors E c)"
    using error_iff[of "''checkInDate''" E c] by simp
qed

text \<open>
  An empty check-in date, Jane Doe's accepted booking, and a check-out date in a format
  the reference engine does not read.
\<close>

theorem date_fields_checks_witness:
  "checkInDate (jane\<lparr>checkInDate := Some []\<rparr>) = Some []
   \<and> ''checkInDate'' \<in> dom (errors reference_engine (jane\<lparr>checkInDate := Some []\<rparr>))
   \<and> bookingSchema reference_engine jane = Inr jane_data
   \<and> Date_parse reference_engine (checkInDate jane_data) \<noteq> None
   \<and> Date_parse reference_engine (checkOutDate jane_data) \<noteq> None
   \<and> object_parses (jane\<lparr>checkOutDate := Some ''31/12/2025''\<rparr>)
   \<and> Date_parse reference_engine ''31/12/2025'' = None
   \<and> ''checkOutDate'' \<in> dom (errors reference_engine (jane\<lparr>checkOutDate := Some ''31/12/2025''\<rparr>))"
proof -
  have a: "checkInDate (jane\<lparr>checkInDate := Some []\<rparr>) = None
           \<or> checkInDate (jane\<lparr>checkInDate := Some []\<rparr>) = Some []" by simp
  have b: "bookingSchema reference_engine jane = Inr jane_data" by code_simp
  have c: "object_parses (jane\<lparr>checkOutDate := Some ''31/12/2025''\<rparr>)
           \<and> checkOutDate (jane\<lparr>checkOutDate := Some ''31/12/2025''\<rparr>) = Some ''31/12/2025''
           \<and> Date_parse reference_engine ''31/12/2025'' = None" by code_simp
  have 1: "''checkInDate'' \<in> dom (errors reference_engine (jane\<lparr>checkInDate := Some []\<rparr>))"
    using a date_fields_checks[of reference_engine "jane\<lparr>checkInDate := Some []\<rparr>",
        THEN conjunct1] by (rule_tac iffD2)
  have 2: "Date_parse reference_engine (checkInDate jane_data) \<noteq> None
           \<and> Date_parse reference_engine (checkOutDate jane_data) \<noteq> None"
    using b date_fields_checks[of reference_engine jane jane_data,
        THEN conjunct2, THEN conjunct2, THEN conjunct1] by blast
  have 3: "''checkOutDate'' \<in> dom (errors reference_engine (jane\<lparr>checkOutDate := Some ''31/12/2025''\<rparr>))"
    using c date_fields_checks[of reference_engine "jane\<lparr>checkOutDate := Some ''31/12/2025''\<rparr>" _ "''31/12/2025''",
        THEN conjunct2, THEN conjunct2, THEN conjunct2, THEN conjunct1] by (rule_tac mp)
  from a b c 1 2 3 show ?thesis by simp
qed

text \<open>
  The string \<^verbatim>\<open>not-a-date\<close> as check-in date, everything else valid: the only issue is
  the cross-field one on \<^verbatim>\<open>checkOutDate\<close>; \<^verbatim>\<open>checkInDate\<close> has no error.
\<close>

theorem unparseable_checkInDate_gets_no_error_of_its_own:
  "Date_parse reference_engine ''not-a-date'' = None
   \<and> bookingSchema reference_engine (jane\<lparr>checkInDate := Some ''not-a-date''\<rparr>)
      = Inl [\<lparr>path = ''checkOutDate'', message = ''Check-out date must be after check-in date''\<rparr>]
   \<and> errors reference_engine (jane\<lparr>checkInDate := Some ''not-a-date''\<rparr>) ''checkInDate'' = None"
  by code_simp

section \<open>What the form hands to the store\<close>

text \<open>
  Claim C4, as the form implements it. For an accepted candidate the handler calls
  \<^verbatim>\<open>addBooking\<close> once, with the parsed data unchanged: the two dates are the
  submitted strings, character for character. A rejected candidate hands nothing to the
  store.
\<close>

theorem dates_handed_to_store_verbatim:
  "(bookingSchema E c = Inr d \<longrightarrow>
      handed_to_store E c = [d]
      \<and> checkInDate c = Some (checkInDate d) \<and> checkOutDate c = Some (checkOutDate d))
   \<and> (isl (bookingSchema E c) \<longrightarrow> handed_to_store E c = [])"
proof (intro conjI impI)
  assume a: "bookingSchema E c = Inr d"
  then show "handed_to_store E c = [d]"
    by (simp add: handed_to_store_def handleSubmit_def onSubmit_def addBooking_argument_id)
  from accepted_data[OF a] show "checkInDate c = Some (checkInDate d)" by simp
  from accepted_data[OF a] show "checkOutDate c = Some (checkOutDate d)" by simp
next
  assume "isl (bookingSchema E c)"
  then show "handed_to_store E c = []"
    by (cases "bookingSchema E c") (simp_all add: handed_to_store_def handleSubmit_def)
qed

text \<open>
  Jane Doe's booking reaches the store as submitted; a booking with a malformed e-mail
  address does not reach it.
\<close>

theorem dates_handed_to_store_verbatim_witness:
  "bookingSchema reference_engine jane = Inr jane_data
   \<and> handed_to_store reference_engine jane = [jane_data]
   \<and> checkInDate jane = Some ''2025-06-01'' \<and> checkInDate jane_data = ''2025-06-01''
   \<and> isl (bookingSchema reference_engine (jane\<lparr>email := Some ''jane''\<rparr>))
   \<and> handed_to_store reference_engine (jane\<lparr>email := Some ''jane''\<rparr>) = []"
proof -
  have 1: "bookingSchema reference_engine jane = Inr jane_data" by code_simp
  then have 2: "handed_to_store reference_engine jane = [jane_data]"
    using dates_handed_to_store_verbatim[of reference_engine jane jane_data, THEN conjunct1]
    by blast
  have 3: "checkInDate jane = Some ''2025-06-01'' \<and> checkInDate jane_data = ''2025-06-01''"
    by (simp add: jane_def jane_data_def)
  have 4: "isl (bookingSchema reference_engine (jane\<lparr>email := Some ''jane''\<rparr>))" by code_simp
  then have 5: "handed_to_store reference_engine (jane\<lparr>email := Some ''jane''\<rparr>) = []"
    using dates_handed_to_store_verbatim[of reference_engine "jane\<lparr>email := Some ''jane''\<rparr>",
        THEN conjunct2] by (rule_tac mp)
  from 1 2 3 4 5 show ?thesis by (intro conjI) simp_all
qed

text \<open>
  The dates are not brought to one representation: \<^verbatim>\<open>2025-06\<close> and
  \<^verbatim>\<open>2025-06-01\<close> are the same instant for \<^verbatim>\<open>Date\<close>, both candidates are
  accepted, and each string reaches the store as it was typed.
\<close>

theorem same_day_two_representations_in_store:
  "Date_parse reference_engine ''2025-06'' = Date_parse reference_engine ''2025-06-01''
   \<and> map checkInDate (handed_to_store reference_engine (jane\<lparr>checkInDate := Some ''2025-06''\<rparr>))
        = [''2025-06'']
   \<and> map checkInDate (handed_to_store reference_engine (jane\<lparr>checkInDate := Some ''2025-06-01''\<rparr>))
        = [''2025-06-01'']"
  by code_simp

section \<open>The contact number\<close>

text \<open>
  Claim C5. The field \<^verbatim>\<open>contactNumber\<close> has no error exactly when it is a string of
  exactly ten characters, each one of the ASCII digits 0 to 9; an error on it rejects the
  candidate.
\<close>

theorem contactNumber_ten_digits:
  "(''contactNumber'' \<notin> dom (errors E c) \<longleftrightarrow>
      (\<exists>s. contactNumber c = Some s \<and> length s = 10 \<and> (\<forall>ch\<in>set s. ch \<in> set ''0123456789'')))
   \<and> (''contactNumber'' \<in> dom (errors E c) \<longrightarrow> isl (bookingSchema E c))"
proof
  have "''contactNumber'' \<in> dom (errors E c) \<longleftrightarrow> field_check_fails E c ''contactNumber''"
    using error_iff[of "''contactNumber''" E c] by simp
  also have "\<dots> \<longleftrightarrow> (case contactNumber c of None \<Rightarrow> True | Some s \<Rightarrow> \<not> contact_regex s)"
    by (simp add: field_check_fails_def)
  finally show "''contactNumber'' \<notin> dom (errors E c) \<longleftrightarrow>
      (\<exists>s. contactNumber c = Some s \<and> length s = 10 \<and> (\<forall>ch\<in>set s. ch \<in> set ''0123456789''))"
    by (cases "contactNumber c") (simp_all add: contact_regex_def list_all_iff is_digit_def)
next
  show "''contactNumber'' \<in> dom (errors E c) \<longrightarrow> isl (bookingSchema E c)"
    using error_rejects[of "''contactNumber''" E c] by blast
qed

text \<open>
  The two examples of the specification: \<^verbatim>\<open>12345\<close> fails with the field's message,
  \<^verbatim>\<open>9876543210\<close> passes.
\<close>

theorem contactNumber_ten_digits_witness:
  "errors reference_engine (jane\<lparr>contactNumber := Some ''12345''\<rparr>) ''contactNumber''
      = Some ''Contact number must be 10 digits''
   \<and> isl (bookingSchema reference_engine (jane\<lparr>contactNumber := Some ''12345''\<rparr>))
   \<and> contactNumber jane = Some ''9876543210''
   \<and> ''contactNumber'' \<notin> dom (errors reference_engine jane)"
proof -
  have 1: "errors reference_engine (jane\<lparr>contactNumber := Some ''12345''\<rparr>) ''contactNumber''
      = Some ''Contact number must be 10 digits''" by code_simp
  then have 2: "''contactNumber'' \<in> dom (errors reference_engine (jane\<lparr>contactNumber := Some ''12345''\<rparr>))"
    by (rule domI)
  have 3: "isl (bookingSchema reference_engine (jane\<lparr>contactNumber := Some ''12345''\<rparr>))"
    using 2 contactNumber_ten_digits[of reference_engine "jane\<lparr>contactNumber := Some ''12345''\<rparr>",
        THEN conjunct2] by (rule_tac mp)
  have 4: "contactNumber jane = Some ''9876543210''" by (simp add: jane_def)
  have "\<exists>s. contactNumber jane = Some s \<and> length s = 10 \<and> (\<forall>ch\<in>set s. ch \<in> set ''0123456789'')"
    by (rule exI[of _ "''9876543210''"]) (simp add: jane_def)
  then have 5: "''contactNumber'' \<notin> dom (errors reference_engine jane)"
    using contactNumber_ten_digits[of reference_engine jane, THEN conjunct1] by (rule_tac iffD2)
  from 1 3 4 5 show ?thesis by (intro conjI)
qed

section \<open>The room type\<close>

text \<open>
  Claim C6. The field \<^verbatim>\<open>roomType\<close> has no error exactly when it is one of the strings
  Single, Double, Deluxe, Suite. A missing or unrecognised value is an error on that field
  and rejects the candidate; no default is substituted, for the room type of an accepted
  candidate is the one that was submitted.
\<close>

theorem roomType_enumeration:
  "(''roomType'' \<notin> dom (errors E c) \<longleftrightarrow>
      (\<exists>s. roomType c = Some s \<and> s \<in> {''Single'', ''Double'', ''Deluxe'', ''Suite''}))
   \<and> (''roomType'' \<in> dom (errors E c) \<longrightarrow> isl (bookingSchema E c))
   \<and> (bookingSchema E c = Inr d \<longrightarrow> roomType c = Some (RoomType_name (roomType d)))"
proof (intro conjI impI)
  have "''roomType'' \<in> dom (errors E c) \<longleftrightarrow> field_check_fails E c ''roomType''"
    using error_iff[of "''roomType''" E c] by simp
  also have "\<dots> \<longleftrightarrow> (case roomType c of None \<Rightarrow> True | Some s \<Rightarrow> RoomType_of s = None)"
    by (simp add: field_check_fails_def)
  finally show "''roomType'' \<notin> dom (errors E c) \<longleftrightarrow>
      (\<exists>s. roomType c = Some s \<and> s \<in> {''Single'', ''Double'', ''Deluxe'', ''Suite''})"
    by (cases "roomType c") (simp_all add: RoomType_of_None)
next
  assume "''roomType'' \<in> dom (errors E c)"
  then show "isl (bookingSchema E c)" by (rule error_rejects)
next
  assume a: "bookingSchema E c = Inr d"
  from accepted_data[OF a] show "roomType c = Some (RoomType_name (roomType d))"
    by (auto simp: RoomType_of_Some)
qed

text \<open>
  No room type chosen, a room type outside the list, and Jane Doe's suite.
\<close>

theorem roomType_enumeration_witness:
  "errors reference_engine (jane\<lparr>roomType := None\<rparr>) ''roomType''
      = Some ''Please select a room type''
   \<and> isl (bookingSchema reference_engine (jane\<lparr>roomType := None\<rparr>))
   \<and> errors reference_engine (jane\<lparr>roomType := Some ''Studio''\<rparr>) ''roomType'' \<noteq> None
   \<and> isl (bookingSchema reference_engine (jane\<lparr>roomType := Some ''Studio''\<rparr>))
   \<and> bookingSchema reference_engine jane = Inr jane_data
   \<and> roomType jane = Some (RoomType_name (roomType jane_data))"
proof -
  have 1: "errors reference_engine (jane\<lparr>roomType := None\<rparr>) ''roomType''
      = Some ''Please select a room type''" by code_simp
  then have "''roomType'' \<in> dom (errors reference_engine (jane\<lparr>roomType := None\<rparr>))"
    by (rule domI)
  then have 2: "isl (bookingSchema reference_engine (jane\<lparr>roomType := None\<rparr>))"
    using roomType_enumeration[of reference_engine "jane\<lparr>roomType := None\<rparr>",
        THEN conjunct2, THEN conjunct1] by (rule_tac mp)
  have 3: "errors reference_engine (jane\<lparr>roomType := Some ''Studio''\<rparr>) ''roomType'' \<noteq> None"
    by code_simp
  then have "''roomType'' \<in> dom (errors reference_engine (jane\<lparr>roomType := Some ''Studio''\<rparr>))"
    by (simp add: domIff)
  then have 4: "isl (bookingSchema reference_engine (jane\<lparr>roomType := Some ''Studio''\<rparr>))"
    using roomType_enumeration[of reference_engine "jane\<lparr>roomType := Some ''Studio''\<rparr>",
        THEN conjunct2, THEN conjunct1] by (rule_tac mp)
  have 5: "bookingSchema reference_engine jane = Inr jane_data" by code_simp
  then have 6: "roomType jane = Some (RoomType_name (roomType jane_data))"
    using roomType_enumeration[of reference_engine jane jane_data,
        THEN conjunct2, THEN conjunct2] by (rule_tac mp)
  from 1 2 3 4 5 6 show ?thesis by (intro conjI)
qed

section \<open>The status lifecycle\<close>

text \<open>
  Claim C7. A transition that succeeds follows one of the five edges of the lifecycle
  graph and sets the requested status. From CheckedOut and from Cancelled every requested
  status is rejected with InvalidTransition, as is every request outside the graph, and the
  store is returned as it was. Along an edge the transition succeeds and the updated
  booking is the one found under its identifier afterwards.
\<close>

theorem transition_follows_lifecycle:
  "(transition now i target s = (Inr b', s') \<longrightarrow>
      (\<exists>b. findById s i = Inr b \<and> (status b, target) \<in> lifecycle_edges \<and> status b' = target))
   \<and> (findById s i = Inr b \<and> (status b = CheckedOut \<or> status b = Cancelled) \<longrightarrow>
      transition now i target s = (Inl InvalidTransition, s))
   \<and> (findById s i = Inr b \<and> (status b, target) \<notin> lifecycle_edges \<longrightarrow>
      transition now i target s = (Inl InvalidTransition, s))
   \<and> (findById s i = Inr b \<and> (status b, target) \<in> lifecycle_edges \<longrightarrow>
      (\<exists>b' s'. transition now i target s = (Inr b', s') \<and> status b' = target
         \<and> findById s' i = Inr b'))"
proof (intro conjI impI)
  assume "transition now i target s = (Inr b', s')"
  then show "\<exists>b. findById s i = Inr b \<and> (status b, target) \<in> lifecycle_edges \<and> status b' = target"
    by (auto simp: transition_def findById_def allowed_iff Let_def split: option.splits if_splits)
next
  assume "findById s i = Inr b \<and> (status b = CheckedOut \<or> status b = Cancelled)"
  then show "transition now i target s = (Inl InvalidTransition, s)"
    using terminal_not_allowed[of "status b" target]
    by (auto simp: transition_def findById_Inr)
next
  assume "findById s i = Inr b \<and> (status b, target) \<notin> lifecycle_edges"
  then show "transition now i target s = (Inl InvalidTransition, s)"
    by (auto simp: transition_def findById_Inr allowed_iff)
next
  assume a: "findById s i = Inr b \<and> (status b, target) \<in> lifecycle_edges"
  then have f: "find (\<lambda>b. booking_id b = i) (bookings s) = Some b" by (simp add: findById_Inr)
  then have "booking_id (b\<lparr>status := target, updatedAt := Some now\<rparr>) = i"
    using find_id[of i "bookings s" b] by simp
  with f have "find (\<lambda>b. booking_id b = i)
      (map (\<lambda>x. if booking_id x = i then b\<lparr>status := target, updatedAt := Some now\<rparr> else x)
        (bookings s)) = Some (b\<lparr>status := target, updatedAt := Some now\<rparr>)"
    by (rule find_after_update)
  with a f show "\<exists>b' s'. transition now i target s = (Inr b', s') \<and> status b' = target
         \<and> findById s' i = Inr b'"
    by (simp add: transition_def allowed_iff findById_def Let_def)
qed

text \<open>
  A confirmed booking cannot be checked out directly but can be checked in; a checked-out
  and a cancelled booking cannot be confirmed again.
\<close>

theorem transition_follows_lifecycle_witness:
  "findById (store1 Confirmed) 1 = Inr (booking1 Confirmed)
   \<and> (status (booking1 Confirmed), CheckedOut) \<notin> lifecycle_edges
   \<and> transition 9 1 CheckedOut (store1 Confirmed) = (Inl InvalidTransition, store1 Confirmed)
   \<and> (status (booking1 Confirmed), CheckedIn) \<in> lifecycle_edges
   \<and> (\<exists>b' s'. transition 9 1 CheckedIn (store1 Confirmed) = (Inr b', s') \<and> status b' = CheckedIn
         \<and> findById s' 1 = Inr b')
   \<and> findById (store1 CheckedOut) 1 = Inr (booking1 CheckedOut)
   \<and> transition 9 1 Confirmed (store1 CheckedOut) = (Inl InvalidTransition, store1 CheckedOut)
   \<and> findById (store1 Cancelled) 1 = Inr (booking1 Cancelled)
   \<and> transition 9 1 Confirmed (store1 Cancelled) = (Inl InvalidTransition, store1 Cancelled)"
proof -
  have f: "findById (store1 st) 1 = Inr (booking1 st)" for st
    by (simp add: findById_def store1_def booking1_def)
  have st: "status (booking1 st) = st" for st by (simp add: booking1_def)
  have 1: "(status (booking1 Confirmed), CheckedOut) \<notin> lifecycle_edges"
    by (simp add: st lifecycle_edges_def)
  have 2: "(status (booking1 Confirmed), CheckedIn) \<in> lifecycle_edges"
    by (simp add: st lifecycle_edges_def)
  note t = transition_follows_lifecycle
  have 3: "transition 9 1 CheckedOut (store1 Confirmed) = (Inl InvalidTransition, store1 Confirmed)"
    using t[of 9 1 CheckedOut "store1 Confirmed" _ _ "booking1 Confirmed",
        THEN conjunct2, THEN conjunct2, THEN conjunct1] f[of Confirmed] 1 by blast
  have 4: "\<exists>b' s'. transition 9 1 CheckedIn (store1 Confirmed) = (Inr b', s') \<and> status b' = CheckedIn
         \<and> findById s' 1 = Inr b'"
    using t[of 9 1 CheckedIn "store1 Confirmed" _ _ "booking1 Confirmed",
        THEN conjunct2, THEN conjunct2, THEN conjunct2] f[of Confirmed] 2 by blast
  have 5: "transition 9 1 Confirmed (store1 CheckedOut) = (Inl InvalidTransition, store1 CheckedOut)"
    using t[of 9 1 Confirmed "store1 CheckedOut" _ _ "booking1 CheckedOut",
        THEN conjunct2, THEN conjunct1] f[of CheckedOut] st[of CheckedOut] by blast
  have 6: "transition 9 1 Confirmed (store1 Cancelled) = (Inl InvalidTransition, store1 Cancelled)"
    using t[of 9 1 Confirmed "store1 Cancelled" _ _ "booking1 Cancelled",
        THEN conjunct2, THEN conjunct1] f[of Cancelled] st[of Cancelled] by blast
  from f[of Confirmed] f[of CheckedOut] f[of Cancelled] 1 2 3 4 5 6 show ?thesis
    by (intro conjI)
qed

section \<open>Creating a booking\<close>

text \<open>
  Claim C8. For a candidate that validation accepts, \<open>create\<close> returns a booking whose
  identifier no booking of the store has, with status Confirmed and the validated fields;
  the booking is appended to the store and written through, and \<open>findById\<close> with the new
  identifier returns the same record. Creating once more from the same candidate gives
  another identifier, and both bookings are then found. For a candidate that validation
  rejects, \<open>create\<close> returns the validation errors and the store as it was.
\<close>

theorem create_assigns_fresh_id:
  "(validate c = Inr v \<longrightarrow>
      (\<exists>b s'. create validate now c s = (Inr b, s')
         \<and> booking_id b \<notin> booking_id ` set (bookings s)
         \<and> findById s (booking_id b) = Inl NotFound
         \<and> status b = Confirmed \<and> details b = v \<and> createdAt b = now
         \<and> bookings s' = bookings s @ [b] \<and> persisted s' = bookings s'
         \<and> findById s' (booking_id b) = Inr b
         \<and> (\<exists>b2 s2. create validate now2 c s' = (Inr b2, s2)
               \<and> booking_id b2 \<noteq> booking_id b \<and> findById s2 (booking_id b) = Inr b
               \<and> findById s2 (booking_id b2) = Inr b2)))
   \<and> (validate c = Inl errs \<longrightarrow> create validate now c s = (Inl (ValidationError errs), s))"
proof (intro conjI impI)
  assume v: "validate c = Inr v"
  define b where "b = \<lparr>booking_id = fresh_id s, details = v, status = Confirmed,
                        createdAt = now, updatedAt = None\<rparr>"
  define s' where "s' = \<lparr>bookings = bookings s @ [b], persisted = bookings s @ [b]\<rparr>"
  define b2 where "b2 = \<lparr>booking_id = fresh_id s', details = v, status = Confirmed,
                        createdAt = now2, updatedAt = None\<rparr>"
  define s2 where "s2 = \<lparr>bookings = bookings s' @ [b2], persisted = bookings s' @ [b2]\<rparr>"
  have c1: "create validate now c s = (Inr b, s')"
    by (simp add: create_def v b_def s'_def Let_def)
  have c2: "create validate now2 c s' = (Inr b2, s2)"
    by (simp add: create_def v b2_def s2_def Let_def)
  have n: "\<forall>x\<in>set (bookings s). booking_id x \<noteq> booking_id b"
    by (auto simp: b_def dest: fresh_id_new)
  then have f0: "booking_id b \<notin> booking_id ` set (bookings s)" by auto
  have nf: "findById s (booking_id b) = Inl NotFound"
    using find_None_fresh[OF n] by (simp add: findById_def)
  have f1: "findById s' (booking_id b) = Inr b"
    using find_fresh[OF n] by (simp add: findById_def s'_def)
  have n2: "\<forall>x\<in>set (bookings s'). booking_id x \<noteq> booking_id b2"
    by (auto simp: b2_def dest: fresh_id_new)
  have bs: "b \<in> set (bookings s')" by (simp add: s'_def)
  with n2 have d: "booking_id b2 \<noteq> booking_id b" by auto
  have f2: "findById s2 (booking_id b2) = Inr b2"
    using find_fresh[OF n2] by (simp add: findById_def s2_def)
  have "find (\<lambda>x. booking_id x = booking_id b) (bookings s') = Some b"
    using f1 by (simp add: findById_Inr)
  then have "find (\<lambda>x. booking_id x = booking_id b) (bookings s' @ [b2]) = Some b"
    by (rule find_append_Some)
  then have f3: "findById s2 (booking_id b) = Inr b"
    by (simp add: findById_def s2_def)
  have props: "status b = Confirmed \<and> details b = v \<and> createdAt b = now
     \<and> bookings s' = bookings s @ [b] \<and> persisted s' = bookings s'"
    by (simp add: b_def s'_def)
  from c1 c2 f0 nf f1 d f2 f3 props
  show "\<exists>b s'. create validate now c s = (Inr b, s')
         \<and> booking_id b \<notin> booking_id ` set (bookings s)
         \<and> findById s (booking_id b) = Inl NotFound
         \<and> status b = Confirmed \<and> details b = v \<and> createdAt b = now
         \<and> bookings s' = bookings s @ [b] \<and> persisted s' = bookings s'
         \<and> findById s' (booking_id b) = Inr b
         \<and> (\<exists>b2 s2. create validate now2 c s' = (Inr b2, s2)
               \<and> booking_id b2 \<noteq> booking_id b \<and> findById s2 (booking_id b) = Inr b
               \<and> findById s2 (booking_id b2) = Inr b2)"
    by blast
next
  assume "validate c = Inl errs"
  then show "create validate now c s = (Inl (ValidationError errs), s)"
    by (simp add: create_def)
qed

text \<open>
  With the form's schema as the validation layer: Jane Doe's booking gets the identifier 2
  in a store that holds booking 1; a five-digit contact number leaves the store unchanged.
\<close>

theorem create_assigns_fresh_id_witness:
  "bookingSchema reference_engine jane = Inr jane_data
   \<and> create (bookingSchema reference_engine) 7 jane (store1 CheckedOut)
       = (Inr \<lparr>booking_id = 2, details = jane_data, status = Confirmed, createdAt = 7,
               updatedAt = None\<rparr>,
          \<lparr>bookings = [booking1 CheckedOut,
                        \<lparr>booking_id = 2, details = jane_data, status = Confirmed, createdAt = 7,
                          updatedAt = None\<rparr>],
            persisted = [booking1 CheckedOut,
                        \<lparr>booking_id = 2, details = jane_data, status = Confirmed, createdAt = 7,
                          updatedAt = None\<rparr>]\<rparr>)
   \<and> bookingSchema reference_engine (jane\<lparr>contactNumber := Some ''12345''\<rparr>)
       = Inl [\<lparr>path = ''contactNumber'', message = ''Contact number must be 10 digits''\<rparr>]
   \<and> create (bookingSchema reference_engine) 7 (jane\<lparr>contactNumber := Some ''12345''\<rparr>)
         (store1 CheckedOut)
       = (Inl (ValidationError
                [\<lparr>path = ''contactNumber'', message = ''Contact number must be 10 digits''\<rparr>]),
          store1 CheckedOut)"
proof -
  have 1: "bookingSchema reference_engine jane = Inr jane_data" by code_simp
  have 2: "bookingSchema reference_engine (jane\<lparr>contactNumber := Some ''12345''\<rparr>)
       = Inl [\<lparr>path = ''contactNumber'', message = ''Contact number must be 10 digits''\<rparr>]"
    by code_simp
  note t = create_assigns_fresh_id[of "bookingSchema reference_engine"]
  from 1 t[of jane jane_data 7 "store1 CheckedOut" 8, THEN conjunct1]
  obtain b s' where c: "create (bookingSchema reference_engine) 7 jane (store1 CheckedOut) = (Inr b, s')"
    and p: "status b = Confirmed" "details b = jane_data" "createdAt b = 7"
      "bookings s' = bookings (store1 CheckedOut) @ [b]" "persisted s' = bookings s'"
    by blast
  have i: "fresh_id (store1 CheckedOut) = 2" by (simp add: fresh_id_def store1_def booking1_def)
  from c have bi: "booking_id b = 2" "updatedAt b = None"
    by (auto simp: create_def 1 i Let_def)
  from p bi have b: "b = \<lparr>booking_id = 2, details = jane_data, status = Confirmed, createdAt = 7,
               updatedAt = None\<rparr>" by (cases b) simp
  from p have s: "s' = \<lparr>bookings = [booking1 CheckedOut, b], persisted = [booking1 CheckedOut, b]\<rparr>"
    by (cases s') (simp add: store1_def)
  have 3: "create (bookingSchema reference_engine) 7 (jane\<lparr>contactNumber := Some ''12345''\<rparr>)
         (store1 CheckedOut)
       = (Inl (ValidationError
                [\<lparr>path = ''contactNumber'', message = ''Contact number must be 10 digits''\<rparr>]),
          store1 CheckedOut)"
    using 2 t[of "jane\<lparr>contactNumber := Some ''12345''\<rparr>" _ _ _ _
        "[\<lparr>path = ''contactNumber'', message = ''Contact number must be 10 digits''\<rparr>]",
        THEN conjunct2] by (rule_tac mp)
  from 1 2 3 c b s show ?thesis by simp
qed

section \<open>A malformed check-in date is reported on the check-out date\<close>

text \<open>
  Claim C9, as the schema implements it. Let the object schema deliver a value, the
  check-in date be a non-empty string that does not parse, and the check-out date a
  string that parses. Then the comparison of the two dates is false, the cross-field issue
  is reported, \<^verbatim>\<open>checkOutDate\<close> has an error (the cross-field message, the check-out
  date being non-empty) and \<^verbatim>\<open>checkInDate\<close> has none.
\<close>

theorem unparseable_checkIn_reported_on_checkOut:
  assumes "object_parses c"
    and "checkInDate c = Some ci" and "ci \<noteq> []" and "Date_parse E ci = None"
    and "checkOutDate c = Some co" and "Date_parse E co \<noteq> None"
  shows "\<not> checkOut_later E c
         \<and> date_order_issue \<in> set (issues_of E c)
         \<and> ''checkOutDate'' \<in> dom (errors E c)
         \<and> ''checkInDate'' \<notin> dom (errors E c)
         \<and> (co \<noteq> [] \<longrightarrow>
              errors E c ''checkOutDate'' = Some ''Check-out date must be after check-in date'')"
proof -
  have n: "\<not> checkOut_later E c"
    using assms(2,4) by (intro unparsed_not_later) blast
  have "\<not> field_check_fails E c ''checkInDate''"
    using assms(2,3) by (simp add: field_check_fails_def)
  then have i: "''checkInDate'' \<notin> dom (errors E c)"
    using error_iff[of "''checkInDate''" E c] by simp
  have o: "''checkOutDate'' \<in> dom (errors E c)"
    using error_iff[of "''checkOutDate''" E c] n assms(1) by blast
  have d: "date_order_issue \<in> set (issues_of E c)"
    using n assms(1) by (simp add: date_order_issue_iff)
  have m: "co \<noteq> [] \<longrightarrow>
      errors E c ''checkOutDate'' = Some ''Check-out date must be after check-in date''"
    using checkOutDate_message[OF assms(1) n assms(5)] by blast
  from n d o i m show ?thesis by blast
qed

text \<open>
  The string \<^verbatim>\<open>not-a-date\<close>, which no engine reads as a date, as check-in date of
  Jane Doe's booking.
\<close>

theorem unparseable_checkIn_reported_on_checkOut_witness:
  "object_parses (jane\<lparr>checkInDate := Some ''not-a-date''\<rparr>)
   \<and> Date_parse reference_engine ''not-a-date'' = None
   \<and> Date_parse reference_engine ''2025-06-05'' \<noteq> None
   \<and> \<not> checkOut_later reference_engine (jane\<lparr>checkInDate := Some ''not-a-date''\<rparr>)
   \<and> ''checkInDate'' \<notin> dom (errors reference_engine (jane\<lparr>checkInDate := Some ''not-a-date''\<rparr>))
   \<and> errors reference_engine (jane\<lparr>checkInDate := Some ''not-a-date''\<rparr>) ''checkOutDate''
        = Some ''Check-out date must be after check-in date''"
proof -
  have 1: "object_parses (jane\<lparr>checkInDate := Some ''not-a-date''\<rparr>)" by code_simp
  have 2: "checkInDate (jane\<lparr>checkInDate := Some ''not-a-date''\<rparr>) = Some ''not-a-date''" by simp
  have 3: "''not-a-date'' \<noteq> []" by simp
  have 4: "Date_parse reference_engine ''not-a-date'' = None" by code_simp
  have 5: "checkOutDate (jane\<lparr>checkInDate := Some ''not-a-date''\<rparr>) = Some ''2025-06-05''"
    by (simp add: jane_def)
  have 6: "Date_parse reference_engine ''2025-06-05'' \<noteq> None" by code_simp
  have 7: "''2025-06-05'' \<noteq> []" by simp
  note t = unparseable_checkIn_reported_on_checkOut[OF 1 2 3 4 5 6]
  from t have a: "\<not> checkOut_later reference_engine (jane\<lparr>checkInDate := Some ''not-a-date''\<rparr>)"
    by (rule conjunct1)
  from t have b: "''checkInDate'' \<notin> dom (errors reference_engine (jane\<lparr>checkInDate := Some ''not-a-date''\<rparr>))"
    by (elim conjE)
  from t 7 have c: "errors reference_engine (jane\<lparr>checkInDate := Some ''not-a-date''\<rparr>) ''checkOutDate''
        = Some ''Check-out date must be after check-in date''"
    by (elim conjE impE)
  from 1 4 6 a b c show ?thesis by (intro conjI)
qed

text \<open>
  Without the hypothesis on the object schema: with no room type chosen, the malformed
  check-in date is reported nowhere, neither on \<^verbatim>\<open>checkInDate\<close> nor on
  \<^verbatim>\<open>checkOutDate\<close>.
\<close>

theorem unparseable_checkIn_unreported_without_roomType:
  "Date_parse reference_engine ''not-a-date'' = None
   \<and> Date_parse reference_engine ''2025-06-05'' = Some 1749081600000
   \<and> bookingSchema reference_engine
        (jane\<lparr>roomType := None, checkInDate := Some ''not-a-date''\<rparr>)
      = Inl [\<lparr>path = ''roomType'', message = ''Please select a room type''\<rparr>]
   \<and> errors reference_engine
        (jane\<lparr>roomType := None, checkInDate := Some ''not-a-date''\<rparr>) ''checkOutDate'' = None"
  by code_simp

section \<open>The submit handler catches a failing store\<close>

text \<open>
  Claim C10. In \<^verbatim>\<open>onSubmit\<close>, when \<^verbatim>\<open>addBooking\<close> throws, the handler catches the
  error: it only shows the error toast, it neither resets the form nor clears the selected
  room type, and it schedules no navigation. Only when \<^verbatim>\<open>addBooking\<close> returns
  normally does the handler show the success toast, reset the form, clear the room-type
  selection and schedule the navigation to the guest list after 1500 milliseconds.
\<close>

theorem onSubmit_catches_addBooking_failure:
  "(addBooking (addBooking_argument data) s = Throws s' \<longrightarrow>
      onSubmit addBooking data s
        = ([toast_error ''Failed to create booking'' ''Please try again''], s'))
   \<and> (addBooking (addBooking_argument data) s = Returns s' \<longrightarrow>
      onSubmit addBooking data s
        = ([toast_success ''Booking created successfully!''
              (''Booking confirmed for '' @ guestName data),
            reset, setRoomType [], setTimeout_navigate ''/guests'' 1500], s'))
   \<and> (reset \<in> set (fst (onSubmit addBooking data s))
        \<longleftrightarrow> (\<exists>t. addBooking (addBooking_argument data) s = Returns t))
   \<and> ((\<exists>v. setRoomType v \<in> set (fst (onSubmit addBooking data s)))
        \<longleftrightarrow> (\<exists>t. addBooking (addBooking_argument data) s = Returns t))
   \<and> ((\<exists>r n. setTimeout_navigate r n \<in> set (fst (onSubmit addBooking data s)))
        \<longleftrightarrow> (\<exists>t. addBooking (addBooking_argument data) s = Returns t))"
  by (cases "addBooking (addBooking_argument data) s") (auto simp: onSubmit_def)

text \<open>A store that throws and a store that returns, on Jane Doe's booking.\<close>

theorem onSubmit_catches_addBooking_failure_witness:
  "failing_addBooking (addBooking_argument jane_data) [] = Throws []
   \<and> onSubmit failing_addBooking jane_data []
        = ([toast_error ''Failed to create booking'' ''Please try again''], [])
   \<and> accepting_addBooking (addBooking_argument jane_data) [] = Returns [jane_data]
   \<and> onSubmit accepting_addBooking jane_data []
        = ([toast_success ''Booking created successfully!'' ''Booking confirmed for Jane Doe'',
            reset, setRoomType [], setTimeout_navigate ''/guests'' 1500], [jane_data])"
proof -
  have t: "failing_addBooking (addBooking_argument jane_data) [] = Throws []"
    by (simp add: failing_addBooking_def)
  have r: "accepting_addBooking (addBooking_argument jane_data) [] = Returns [jane_data]"
    by (simp add: accepting_addBooking_def addBooking_argument_def jane_data_def)
  have n: "guestName jane_data = ''Jane Doe''" by (simp add: jane_data_def)
  show ?thesis
    using t r n onSubmit_catches_addBooking_failure[of failing_addBooking jane_data "[]" "[]"]
      onSubmit_catches_addBooking_failure[of accepting_addBooking jane_data "[]" "[jane_data]"]
    by simp
qed

end
